theory Spec2Isabelle
  imports Complex_Main "HOL-Library.Char_ord" "HOL-Library.List_Lexorder"
begin

section \<open>Numbers, errors and tables\<close>

text \<open>
  The cells of the pandas tables are floating-point numbers. A finite number is modelled
  by the real it denotes: rounding, overflow and the sign of zero are left out. The
  non-finite values are kept, since the program meets them: \<open>NaN\<close> is pandas' marker of
  a missing cell, and a division by zero on numpy scalars yields an infinity or \<open>NaN\<close>
  (with a warning), never an exception.
\<close>

datatype fnum = Fin real | PInf | MInf | NaN

fun fneg :: "fnum \<Rightarrow> fnum" where
  "fneg (Fin a) = Fin (- a)"
| "fneg PInf = MInf"
| "fneg MInf = PInf"
| "fneg NaN = NaN"

fun fadd :: "fnum \<Rightarrow> fnum \<Rightarrow> fnum" where
  "fadd NaN y = NaN"
| "fadd x NaN = NaN"
| "fadd (Fin a) (Fin b) = Fin (a + b)"
| "fadd PInf MInf = NaN"
| "fadd MInf PInf = NaN"
| "fadd PInf y = PInf"
| "fadd MInf y = MInf"
| "fadd (Fin a) y = y"

definition fsub :: "fnum \<Rightarrow> fnum \<Rightarrow> fnum" where
  "fsub x y = fadd x (fneg y)"

fun fmul :: "fnum \<Rightarrow> fnum \<Rightarrow> fnum" where
  "fmul NaN y = NaN"
| "fmul x NaN = NaN"
| "fmul (Fin a) (Fin b) = Fin (a * b)"
| "fmul (Fin a) PInf = (if a = 0 then NaN else if 0 < a then PInf else MInf)"
| "fmul (Fin a) MInf = (if a = 0 then NaN else if 0 < a then MInf else PInf)"
| "fmul PInf (Fin b) = (if b = 0 then NaN else if 0 < b then PInf else MInf)"
| "fmul MInf (Fin b) = (if b = 0 then NaN else if 0 < b then MInf else PInf)"
| "fmul PInf PInf = PInf"
| "fmul PInf MInf = MInf"
| "fmul MInf PInf = MInf"
| "fmul MInf MInf = PInf"

fun fdiv :: "fnum \<Rightarrow> fnum \<Rightarrow> fnum" where
  "fdiv NaN y = NaN"
| "fdiv x NaN = NaN"
| "fdiv (Fin a) (Fin b) =
     (if b = 0 then (if a = 0 then NaN else if 0 < a then PInf else MInf) else Fin (a / b))"
| "fdiv (Fin a) PInf = Fin 0"
| "fdiv (Fin a) MInf = Fin 0"
| "fdiv PInf (Fin b) = (if 0 \<le> b then PInf else MInf)"
| "fdiv MInf (Fin b) = (if 0 \<le> b then MInf else PInf)"
| "fdiv PInf y = NaN"
| "fdiv MInf y = NaN"

text \<open>The exceptions the program can raise.\<close>

datatype error = KeyError | IndexError | ValueError | TypeError | AttributeError

text \<open>
  A date is the number of its day; the strings of the query interface are taken as
  already parsed. A \<open>pd.Series\<close> with a date index is the list of its (label, value)
  rows; a series built from a plain list has the positions as labels and is the list
  of its values.
\<close>

type_synonym date = int

type_synonym series = "(date \<times> fnum) list"

text \<open>\<open>pd.Series(values, index=idx)\<close>: the lengths must agree.\<close>

definition new_Series :: "fnum list \<Rightarrow> date list \<Rightarrow> error + series" where
  "new_Series vals idx = (if length vals = length idx then Inr (zip idx vals) else Inl ValueError)"

definition iloc :: "series \<Rightarrow> nat \<Rightarrow> fnum" where
  "iloc s i = snd (s ! i)"

text \<open>
  A \<open>pd.DataFrame\<close>: the row labels and the columns in their order, each column with
  one cell per row. The price, weight and exchange-rate tables are indexed by date.
\<close>

record dataframe =
  df_index :: "date list"
  df_cols :: "(string \<times> fnum list) list"

text \<open>\<open>df[c]\<close> raises \<open>KeyError\<close> for a column the table does not have.\<close>

definition df_getitem :: "dataframe \<Rightarrow> string \<Rightarrow> error + fnum list" where
  "df_getitem df c = (case map_of (df_cols df) c of None \<Rightarrow> Inl KeyError | Some vs \<Rightarrow> Inr vs)"

text \<open>
  \<open>df[c] = s\<close> for a series \<open>s\<close> built from a list (labels \<open>0, 1, ...\<close>) and a
  table under construction with such labels: a table without rows takes the labels of a
  non-empty \<open>s\<close>; otherwise \<open>s\<close> is aligned to the rows, cut or padded with \<open>NaN\<close>.
\<close>

definition df_setitem :: "dataframe \<Rightarrow> string \<Rightarrow> fnum list \<Rightarrow> dataframe" where
  "df_setitem df c s =
     (let df1 = (if df_index df = [] \<and> s \<noteq> []
                 then \<lparr>df_index = map int [0 ..< length s],
                       df_cols = map (\<lambda>(k, ws). (k, replicate (length s) NaN)) (df_cols df)\<rparr>
                 else df);
          n = length (df_index df1);
          col = take n s @ replicate (n - length s) NaN
      in (case map_of (df_cols df1) c of
            None \<Rightarrow> df1\<lparr>df_cols := df_cols df1 @ [(c, col)]\<rparr>
          | Some old \<Rightarrow> df1\<lparr>df_cols := map (\<lambda>(k, ws). if k = c then (k, col) else (k, ws)) (df_cols df1)\<rparr>))"

text \<open>\<open>df.index = idx\<close> raises \<open>ValueError\<close> when the number of labels is not the number of rows.\<close>

definition df_set_index :: "dataframe \<Rightarrow> date list \<Rightarrow> error + dataframe" where
  "df_set_index df idx =
     (if length idx = length (df_index df) then Inr (df\<lparr>df_index := idx\<rparr>) else Inl ValueError)"

section \<open>Return calculator (class AssetPerfomances)\<close>

text \<open>
  The four tables the constructor loads. The currency table has one row per asset and a
  single column, the currency code.
\<close>

record asset_perfomances =
  prices :: dataframe
  exchanges :: dataframe
  currencies :: "(string \<times> string) list"
  weights :: dataframe

text \<open>
  \<open>fillna(method='ffill')\<close> carries the last value that is not \<open>NaN\<close> forward;
  \<open>fillna(method='bfill')\<close> does the same from the end.
\<close>

fun ffill_from :: "fnum \<Rightarrow> fnum list \<Rightarrow> fnum list" where
  "ffill_from prev [] = []"
| "ffill_from prev (x # xs) = (if x = NaN then prev # ffill_from prev xs else x # ffill_from x xs)"

definition ffill :: "fnum list \<Rightarrow> fnum list" where
  "ffill column = ffill_from NaN column"

definition bfill :: "fnum list \<Rightarrow> fnum list" where
  "bfill column = rev (ffill (rev column))"

definition replace_na_values :: "fnum list \<Rightarrow> fnum list" where
  "replace_na_values column = bfill (ffill column)"

text \<open>
  \<open>pd.date_range(a, b, freq='D')\<close> is every day from \<open>a\<close> to \<open>b\<close>. The left join of
  the empty daily table with \<open>df\<close> keeps, for each day, the rows of \<open>df\<close> with that
  label, and one row of \<open>NaN\<close> for a day \<open>df\<close> does not have.
\<close>

definition date_range :: "date \<Rightarrow> date \<Rightarrow> date list" where
  "date_range a b = [a .. b]"

definition join_labels :: "date list \<Rightarrow> date \<Rightarrow> date list" where
  "join_labels idx d = (case filter (\<lambda>x. x = d) idx of [] \<Rightarrow> [d] | ds \<Rightarrow> ds)"

definition join_values :: "date list \<Rightarrow> fnum list \<Rightarrow> date \<Rightarrow> fnum list" where
  "join_values idx vs d =
     (case map snd (filter (\<lambda>p. fst p = d) (zip idx vs)) of [] \<Rightarrow> [NaN] | ws \<Rightarrow> ws)"

definition get_new_index :: "dataframe \<Rightarrow> error + dataframe" where
  "get_new_index df =
     (case df_index df of
        [] \<Rightarrow> Inl IndexError
      | first # others \<Rightarrow>
          (let days = date_range first (last (first # others))
           in Inr \<lparr>df_index = concat (map (join_labels (df_index df)) days),
                    df_cols = map (\<lambda>(c, vs). (c, concat (map (join_values (df_index df) vs) days)))
                                  (df_cols df)\<rparr>))"

text \<open>
  \<open>DataFrame.squeeze()\<close> of the one selected column: a series, but the bare cell when
  the table has exactly one row.
\<close>

datatype squeezed = Scalar fnum | Column "fnum list"

definition squeeze :: "fnum list \<Rightarrow> squeezed" where
  "squeeze vs = (case vs of [v] \<Rightarrow> Scalar v | _ \<Rightarrow> Column vs)"

definition get_series_by_currency :: "asset_perfomances \<Rightarrow> string \<Rightarrow> squeezed" where
  "get_series_by_currency self asset =
     (case map_of (currencies self) asset of
        None \<Rightarrow> Column (replicate (length (df_index (exchanges self))) (Fin 1))
      | Some column \<Rightarrow>
          (case df_getitem (exchanges self) column of
             Inl err \<Rightarrow> Column (replicate (length (df_index (exchanges self))) (Fin 1))
           | Inr vs \<Rightarrow> squeeze vs))"

definition count_return_prices_for_asset :: "asset_perfomances \<Rightarrow> string \<Rightarrow> error + fnum list" where
  "count_return_prices_for_asset self asset =
     (case get_new_index (prices self) of
        Inl err \<Rightarrow> Inl err
      | Inr new_df \<Rightarrow>
     (case df_getitem new_df asset of
        Inl err \<Rightarrow> Inl err
      | Inr column \<Rightarrow>
          (let new_prices = replace_na_values column
           in Inr (map (\<lambda>i. fdiv (fsub (new_prices ! i) (new_prices ! (i - 1))) (new_prices ! (i - 1)))
                       [1 ..< length new_prices]))))"

text \<open>
  The currency return fills the column of the exchange-rate table in place
  (\<open>inplace=True\<close> on a column of \<open>self._exchanges\<close>), so the object is returned with
  the result. The column is not put on the daily calendar.
\<close>

definition df_replace_column :: "dataframe \<Rightarrow> string \<Rightarrow> fnum list \<Rightarrow> dataframe" where
  "df_replace_column df c col =
     df\<lparr>df_cols := map (\<lambda>(k, ws). if k = c then (k, col) else (k, ws)) (df_cols df)\<rparr>"

definition count_currency_perfomance_for_asset ::
  "asset_perfomances \<Rightarrow> string \<Rightarrow> error + (fnum list \<times> asset_perfomances)" where
  "count_currency_perfomance_for_asset self asset =
     (case map_of (currencies self) asset of
        None \<Rightarrow> Inl KeyError
      | Some cur_currency \<Rightarrow>
          if cur_currency = ''USD''
          then Inr (replicate (length (df_index (exchanges self)) - 1) (Fin 0), self)
          else
            (case df_getitem (exchanges self) cur_currency of
               Inl err \<Rightarrow> Inl err
             | Inr column \<Rightarrow>
                 (let new_exchanges = replace_na_values column
                  in Inr (map (\<lambda>i. fdiv (fsub (new_exchanges ! i) (new_exchanges ! (i - 1)))
                                       (new_exchanges ! (i - 1)))
                              [1 ..< length new_exchanges],
                          self\<lparr>exchanges := df_replace_column (exchanges self) cur_currency new_exchanges\<rparr>))))"

text \<open>
  The loop of the total return reads the rate and the price at the same position;
  a position beyond the rates raises \<open>IndexError\<close>.
\<close>

fun total_loop :: "fnum list \<Rightarrow> fnum list \<Rightarrow> nat list \<Rightarrow> error + fnum list" where
  "total_loop currency_for_asset new_prices [] = Inr []"
| "total_loop currency_for_asset new_prices (i # is) =
     (if i < length currency_for_asset
      then (let value1 = fmul (currency_for_asset ! i) (new_prices ! i);
                value2 = fmul (currency_for_asset ! (i - 1)) (new_prices ! (i - 1))
            in (case total_loop currency_for_asset new_prices is of
                  Inl err \<Rightarrow> Inl err
                | Inr perfomance \<Rightarrow> Inr (fdiv (fsub value1 value2) value2 # perfomance)))
      else Inl IndexError)"

definition count_total_perfomance_for_asset :: "asset_perfomances \<Rightarrow> string \<Rightarrow> error + fnum list" where
  "count_total_perfomance_for_asset self asset =
     (case get_new_index (prices self) of
        Inl err \<Rightarrow> Inl err
      | Inr new_df \<Rightarrow>
     (case df_getitem new_df asset of
        Inl err \<Rightarrow> Inl err
      | Inr column \<Rightarrow>
          (let new_prices = replace_na_values column
           in (case get_series_by_currency self asset of
                 Scalar v \<Rightarrow> Inl AttributeError
               | Column currency_for_asset \<Rightarrow>
                   total_loop currency_for_asset new_prices [1 ..< length new_prices]))))"

text \<open>The three tables of per-asset returns, one column per column of the price table.\<close>

definition empty_df :: dataframe where
  "empty_df = \<lparr>df_index = [], df_cols = []\<rparr>"

fun price_columns :: "asset_perfomances \<Rightarrow> dataframe \<Rightarrow> string list \<Rightarrow> error + dataframe" where
  "price_columns self df [] = Inr df"
| "price_columns self df (column # cs) =
     (case count_return_prices_for_asset self column of
        Inl err \<Rightarrow> Inl err
      | Inr s \<Rightarrow> price_columns self (df_setitem df column s) cs)"

definition calculate_price_perfomance_for_all_assets :: "asset_perfomances \<Rightarrow> error + dataframe" where
  "calculate_price_perfomance_for_all_assets self =
     (case price_columns self empty_df (map fst (df_cols (prices self))) of
        Inl err \<Rightarrow> Inl err
      | Inr price_perform_df \<Rightarrow>
     (case get_new_index (prices self) of
        Inl err \<Rightarrow> Inl err
      | Inr new_df \<Rightarrow> df_set_index price_perform_df (tl (df_index new_df))))"

fun currency_columns ::
  "asset_perfomances \<Rightarrow> dataframe \<Rightarrow> string list \<Rightarrow> error + (dataframe \<times> asset_perfomances)" where
  "currency_columns self df [] = Inr (df, self)"
| "currency_columns self df (column # cs) =
     (case count_currency_perfomance_for_asset self column of
        Inl err \<Rightarrow> Inl err
      | Inr (s, self1) \<Rightarrow> currency_columns self1 (df_setitem df column s) cs)"

definition calculate_currency_perfomance_for_all_assets ::
  "asset_perfomances \<Rightarrow> error + (dataframe \<times> asset_perfomances)" where
  "calculate_currency_perfomance_for_all_assets self =
     (case currency_columns self empty_df (map fst (df_cols (prices self))) of
        Inl err \<Rightarrow> Inl err
      | Inr (currency_perform_df, self1) \<Rightarrow>
     (case get_new_index (exchanges self1) of
        Inl err \<Rightarrow> Inl err
      | Inr new_df \<Rightarrow>
     (case df_set_index currency_perform_df (tl (df_index new_df)) of
        Inl err \<Rightarrow> Inl err
      | Inr df \<Rightarrow> Inr (df, self1))))"

fun total_columns :: "asset_perfomances \<Rightarrow> dataframe \<Rightarrow> string list \<Rightarrow> error + dataframe" where
  "total_columns self df [] = Inr df"
| "total_columns self df (column # cs) =
     (case count_total_perfomance_for_asset self column of
        Inl err \<Rightarrow> Inl err
      | Inr s \<Rightarrow> total_columns self (df_setitem df column s) cs)"

definition calculate_total_perfomance_for_all_assets :: "asset_perfomances \<Rightarrow> error + dataframe" where
  "calculate_total_perfomance_for_all_assets self =
     (case total_columns self empty_df (map fst (df_cols (prices self))) of
        Inl err \<Rightarrow> Inl err
      | Inr total_perform_df \<Rightarrow>
     (case get_new_index (prices self) of
        Inl err \<Rightarrow> Inl err
      | Inr new_df \<Rightarrow> df_set_index total_perform_df (tl (df_index new_df))))"

text \<open>The weights on the daily calendar, every column filled, without the last row (\<open>iloc[:-1]\<close>).\<close>

definition prepare_weights_df :: "asset_perfomances \<Rightarrow> error + dataframe" where
  "prepare_weights_df self =
     (case get_new_index (weights self) of
        Inl err \<Rightarrow> Inl err
      | Inr new_weights \<Rightarrow>
          Inr \<lparr>df_index = butlast (df_index new_weights),
               df_cols = map (\<lambda>(c, vs). (c, butlast (bfill (ffill vs)))) (df_cols new_weights)\<rparr>)"

section \<open>Weight aggregator (class PerfomancesWithWeights)\<close>

record perfomances_with_weights = asset_perfomances +
  rt :: dataframe
  crt :: dataframe
  trt :: dataframe
  weights_daily :: dataframe

definition PerfomancesWithWeights_init :: "asset_perfomances \<Rightarrow> error + perfomances_with_weights" where
  "PerfomancesWithWeights_init self =
     (case calculate_price_perfomance_for_all_assets self of
        Inl err \<Rightarrow> Inl err
      | Inr r \<Rightarrow>
     (case calculate_currency_perfomance_for_all_assets self of
        Inl err \<Rightarrow> Inl err
      | Inr (c, self1) \<Rightarrow>
     (case calculate_total_perfomance_for_all_assets self1 of
        Inl err \<Rightarrow> Inl err
      | Inr t \<Rightarrow>
     (case prepare_weights_df self1 of
        Inl err \<Rightarrow> Inl err
      | Inr w \<Rightarrow>
          Inr \<lparr>prices = prices self1, exchanges = exchanges self1,
               currencies = currencies self1, weights = weights self1,
               rt = r, crt = c, trt = t, weights_daily = w\<rparr>))))"

text \<open>
  The product of two tables aligns them by label on both axes: the result has the
  labels of either table (as they are when both agree or one has none, sorted otherwise),
  and a cell is \<open>NaN\<close> where one of the tables lacks the row or the column. This is the
  alignment for tables without repeated labels.
\<close>

definition index_union :: "('a :: linorder) list \<Rightarrow> 'a list \<Rightarrow> 'a list" where
  "index_union xs ys =
     (if xs = ys \<or> ys = [] then xs else if xs = [] then ys else sort (remdups (xs @ ys)))"

definition df_at :: "dataframe \<Rightarrow> date \<Rightarrow> string \<Rightarrow> fnum" where
  "df_at df d c =
     (case map_of (df_cols df) c of
        None \<Rightarrow> NaN
      | Some vs \<Rightarrow> (case map_of (zip (df_index df) vs) d of None \<Rightarrow> NaN | Some v \<Rightarrow> v))"

definition df_mul :: "dataframe \<Rightarrow> dataframe \<Rightarrow> dataframe" where
  "df_mul a b =
     (let idx = index_union (df_index a) (df_index b);
          cs = index_union (map fst (df_cols a)) (map fst (df_cols b))
      in \<lparr>df_index = idx,
          df_cols = map (\<lambda>c. (c, map (\<lambda>d. fmul (df_at a d c) (df_at b d c)) idx)) cs\<rparr>)"

text \<open>\<open>sum(row)\<close> adds the cells of a row to 0, from the left.\<close>

definition row_sums :: "dataframe \<Rightarrow> series" where
  "row_sums df =
     map (\<lambda>i. (df_index df ! i, foldl fadd (Fin 0) (map (\<lambda>(c, vs). vs ! i) (df_cols df))))
         [0 ..< length (df_index df)]"

definition calculate_price_perfomance_according_on_weights :: "perfomances_with_weights \<Rightarrow> series" where
  "calculate_price_perfomance_according_on_weights self = row_sums (df_mul (rt self) (weights_daily self))"

definition calculate_currency_perfomance_according_on_weights :: "perfomances_with_weights \<Rightarrow> series" where
  "calculate_currency_perfomance_according_on_weights self = row_sums (df_mul (crt self) (weights_daily self))"

definition calculate_total_perfomance_according_on_weights :: "perfomances_with_weights \<Rightarrow> series" where
  "calculate_total_perfomance_according_on_weights self = row_sums (df_mul (trt self) (weights_daily self))"


section \<open>Compounding engine (class TotalPerfomance)\<close>

record total_perfomance = perfomances_with_weights +
  res_t :: series
  currency_res_t :: series
  total_res_t :: series
  P :: fnum
  CP :: fnum
  TP :: fnum

definition TotalPerfomance_init :: "asset_perfomances \<Rightarrow> error + total_perfomance" where
  "TotalPerfomance_init tables =
     (case PerfomancesWithWeights_init tables of
        Inl err \<Rightarrow> Inl err
      | Inr self \<Rightarrow>
          Inr \<lparr>prices = prices self, exchanges = exchanges self,
               currencies = currencies self, weights = weights self,
               rt = rt self, crt = crt self, trt = trt self, weights_daily = weights_daily self,
               res_t = calculate_price_perfomance_according_on_weights self,
               currency_res_t = calculate_currency_perfomance_according_on_weights self,
               total_res_t = calculate_total_perfomance_according_on_weights self,
               P = Fin 1, CP = Fin 1, TP = Fin 1\<rparr>)"

text \<open>
  \<open>Index.get_loc\<close>: the position of a label that occurs once, \<open>KeyError\<close> for a label
  that does not occur; for a repeated label pandas returns a slice or a mask, which is
  no integer.
\<close>

datatype loc = Pos nat | NonUnique

definition get_loc :: "date list \<Rightarrow> date \<Rightarrow> error + loc" where
  "get_loc idx d =
     (case filter (\<lambda>i. idx ! i = d) [0 ..< length idx] of
        [] \<Rightarrow> Inl KeyError
      | [i] \<Rightarrow> Inr (Pos i)
      | _ \<Rightarrow> Inr NonUnique)"

definition get_index_of_start_date_element :: "series \<Rightarrow> date \<Rightarrow> error + loc" where
  "get_index_of_start_date_element column start_date = get_loc (map fst column) start_date"

definition get_index_of_end_date_element :: "series \<Rightarrow> date \<Rightarrow> error + loc" where
  "get_index_of_end_date_element column end_date = get_loc (map fst column) end_date"

text \<open>
  \<open>column.loc[start_date:end_date].index\<close> for two labels found at the positions
  \<open>s\<close> and \<open>e\<close>: the labels from \<open>s\<close> to \<open>e\<close> inclusive, none when \<open>e < s\<close>.
\<close>

definition loc_slice :: "date list \<Rightarrow> nat \<Rightarrow> nat \<Rightarrow> date list" where
  "loc_slice idx s e = take (Suc e - s) (drop s idx)"

text \<open>
  The body of the loop \<open>for i in range(start + 1, end + 1)\<close>, which appends
  \<open>performance[-1] * (1 + column.iloc[i])\<close>; the three queries run the same loop.
\<close>

fun compound_loop :: "series \<Rightarrow> fnum list \<Rightarrow> nat list \<Rightarrow> fnum list" where
  "compound_loop column performance [] = performance"
| "compound_loop column performance (i # is) =
     compound_loop column (performance @ [fmul (last performance) (fadd (Fin 1) (iloc column i))]) is"

definition calculate_asset_performance :: "total_perfomance \<Rightarrow> date \<Rightarrow> date \<Rightarrow> error + series" where
  "calculate_asset_performance self start_date end_date =
     (case get_index_of_start_date_element (res_t self) start_date of
        Inl err \<Rightarrow> Inl err
      | Inr start \<Rightarrow>
     (case get_index_of_end_date_element (res_t self) end_date of
        Inl err \<Rightarrow> Inl err
      | Inr finish \<Rightarrow>
     (case (start, finish) of
        (Pos s, Pos e) \<Rightarrow>
          new_Series (compound_loop (res_t self) [Fin 1] [Suc s ..< Suc e])
            (loc_slice (map fst (res_t self)) s e)
      | _ \<Rightarrow> Inl TypeError)))"

definition calculate_currency_performance :: "total_perfomance \<Rightarrow> date \<Rightarrow> date \<Rightarrow> error + series" where
  "calculate_currency_performance self start_date end_date =
     (case get_index_of_start_date_element (currency_res_t self) start_date of
        Inl err \<Rightarrow> Inl err
      | Inr start \<Rightarrow>
     (case get_index_of_end_date_element (currency_res_t self) end_date of
        Inl err \<Rightarrow> Inl err
      | Inr finish \<Rightarrow>
     (case (start, finish) of
        (Pos s, Pos e) \<Rightarrow>
          new_Series (compound_loop (currency_res_t self) [CP self] [Suc s ..< Suc e])
            (loc_slice (map fst (currency_res_t self)) s e)
      | _ \<Rightarrow> Inl TypeError)))"

definition calculate_total_performance :: "total_perfomance \<Rightarrow> date \<Rightarrow> date \<Rightarrow> error + series" where
  "calculate_total_performance self start_date end_date =
     (case get_index_of_start_date_element (total_res_t self) start_date of
        Inl err \<Rightarrow> Inl err
      | Inr start \<Rightarrow>
     (case get_index_of_end_date_element (total_res_t self) end_date of
        Inl err \<Rightarrow> Inl err
      | Inr finish \<Rightarrow>
     (case (start, finish) of
        (Pos s, Pos e) \<Rightarrow>
          new_Series (compound_loop (total_res_t self) [TP self] [Suc s ..< Suc e])
            (loc_slice (map fst (total_res_t self)) s e)
      | _ \<Rightarrow> Inl TypeError)))"

section \<open>Notions of the specification\<close>

text \<open>
  The three query operations, each with the portfolio return series it compounds.
\<close>

definition query_operations ::
  "((total_perfomance \<Rightarrow> date \<Rightarrow> date \<Rightarrow> error + series) \<times> (total_perfomance \<Rightarrow> series)) list" where
  "query_operations =
     [(calculate_asset_performance, res_t),
      (calculate_currency_performance, currency_res_t),
      (calculate_total_performance, total_res_t)]"

text \<open>
  The normalized daily calendar of a table is every day from its first to its last date,
  and the value a column holds on a day is the cell of the row with that date, \<open>NaN\<close>
  when the table has no such row.
\<close>

definition calendar :: "dataframe \<Rightarrow> date list" where
  "calendar df = [hd (df_index df) .. last (df_index df)]"

definition observed_on :: "date list \<Rightarrow> fnum list \<Rightarrow> date \<Rightarrow> fnum" where
  "observed_on idx vs d = (case map_of (zip idx vs) d of None \<Rightarrow> NaN | Some v \<Rightarrow> v)"

text \<open>
  Gap filling, as the specification words it, position by position: a day takes the last
  known value at or before it; a day with no known value yet takes the first known value
  of the series; a series without any known value stays \<open>NaN\<close>.
\<close>

definition last_known :: "fnum list \<Rightarrow> nat \<Rightarrow> fnum option" where
  "last_known xs t = find (\<lambda>v. v \<noteq> NaN) (rev (take (Suc t) xs))"

definition first_known :: "fnum list \<Rightarrow> fnum option" where
  "first_known xs = find (\<lambda>v. v \<noteq> NaN) xs"

definition gap_filled :: "fnum list \<Rightarrow> nat \<Rightarrow> fnum" where
  "gap_filled xs t =
     (case last_known xs t of
        Some v \<Rightarrow> v
      | None \<Rightarrow> (case first_known xs of Some v \<Rightarrow> v | None \<Rightarrow> NaN))"

text \<open>The gap-filled daily prices of an asset with the observed prices \<open>observed\<close>.\<close>

definition daily_prices :: "asset_perfomances \<Rightarrow> fnum list \<Rightarrow> fnum list" where
  "daily_prices self observed =
     map (observed_on (df_index (prices self)) observed) (calendar (prices self))"

definition filled_prices :: "asset_perfomances \<Rightarrow> fnum list \<Rightarrow> fnum list" where
  "filled_prices self observed =
     map (gap_filled (daily_prices self observed)) [0 ..< length (daily_prices self observed)]"

section \<open>Example tables\<close>

text \<open>
  Two assets over five days: prices and weights are observed on the days 0, 1, 2 and 4,
  the exchange rate of the euro on every day, with a gap in each table.
\<close>

definition example_tables :: asset_perfomances where
  "example_tables =
     \<lparr>prices = \<lparr>df_index = [0, 1, 2, 4],
                 df_cols = [(''A'', [Fin 1, Fin 2, Fin 3, Fin 6]),
                            (''B'', [Fin 10, Fin 20, NaN, Fin 20])]\<rparr>,
      exchanges = \<lparr>df_index = [0, 1, 2, 3, 4],
                    df_cols = [(''EUR'', [Fin 1, Fin 2, NaN, Fin 4, Fin 4])]\<rparr>,
      currencies = [(''A'', ''USD''), (''B'', ''EUR'')],
      weights = \<lparr>df_index = [0, 1, 2, 4],
                  df_cols = [(''A'', [Fin (1/2), NaN, Fin (1/2), Fin 1]),
                             (''B'', [Fin (1/2), Fin (1/2), Fin (1/2), Fin 0])]\<rparr>\<rparr>"

text \<open>The object the constructors build from these tables.\<close>

definition example_weighted :: perfomances_with_weights where
  "example_weighted =
     \<lparr>prices = prices example_tables,
      exchanges = \<lparr>df_index = [0, 1, 2, 3, 4],
                    df_cols = [(''EUR'', [Fin 1, Fin 2, Fin 2, Fin 4, Fin 4])]\<rparr>,
      currencies = currencies example_tables,
      weights = weights example_tables,
      rt = \<lparr>df_index = [1, 2, 3, 4],
             df_cols = [(''A'', [Fin 1, Fin (1/2), Fin 0, Fin 1]),
                        (''B'', [Fin 1, Fin 0, Fin 0, Fin 0])]\<rparr>,
      crt = \<lparr>df_index = [1, 2, 3, 4],
              df_cols = [(''A'', [Fin 0, Fin 0, Fin 0, Fin 0]),
                         (''B'', [Fin 1, Fin 0, Fin 1, Fin 0])]\<rparr>,
      trt = \<lparr>df_index = [1, 2, 3, 4],
              df_cols = [(''A'', [Fin 1, Fin (1/2), Fin 0, Fin 1]),
                         (''B'', [Fin 3, Fin 0, Fin 1, Fin 0])]\<rparr>,
      weights_daily = \<lparr>df_index = [0, 1, 2, 3],
                        df_cols = [(''A'', [Fin (1/2), Fin (1/2), Fin (1/2), Fin (1/2)]),
                                   (''B'', [Fin (1/2), Fin (1/2), Fin (1/2), Fin (1/2)])]\<rparr>\<rparr>"

definition example_object :: total_perfomance where
  "example_object =
     \<lparr>prices = prices example_weighted, exchanges = exchanges example_weighted,
      currencies = currencies example_weighted, weights = weights example_weighted,
      rt = rt example_weighted, crt = crt example_weighted, trt = trt example_weighted,
      weights_daily = weights_daily example_weighted,
      res_t = [(0, NaN), (1, Fin 1), (2, Fin (1/4)), (3, Fin 0), (4, NaN)],
      currency_res_t = [(0, NaN), (1, Fin (1/2)), (2, Fin 0), (3, Fin (1/2)), (4, NaN)],
      total_res_t = [(0, NaN), (1, Fin 2), (2, Fin (1/4)), (3, Fin (1/2)), (4, NaN)],
      P = Fin 1, CP = Fin 1, TP = Fin 1\<rparr>"

text \<open>The same tables with an asset in a currency the exchange-rate table does not have.\<close>

definition example_unknown :: asset_perfomances where
  "example_unknown = example_tables\<lparr>currencies := [(''A'', ''USD''), (''B'', ''GBP'')]\<rparr>"

text \<open>A price table whose only asset has no price on its first day and none on day 2.\<close>

definition example_leading :: asset_perfomances where
  "example_leading =
     example_tables\<lparr>prices := \<lparr>df_index = [0, 1, 3], df_cols = [(''C'', [NaN, Fin 4, Fin 8])]\<rparr>,
                     currencies := [(''C'', ''USD'')]\<rparr>"

text \<open>
  Constant prices on the days 1 to 3 for an asset in euro, and exchange rates from day 0
  on that are constant on the days 1 to 3.
\<close>

definition example_shifted :: asset_perfomances where
  "example_shifted =
     example_tables\<lparr>prices := \<lparr>df_index = [1, 2, 3], df_cols = [(''B'', [Fin 10, Fin 10, Fin 10])]\<rparr>,
                     exchanges := \<lparr>df_index = [0, 1, 2, 3],
                                    df_cols = [(''EUR'', [Fin 1, Fin 2, Fin 2, Fin 2])]\<rparr>,
                     currencies := [(''B'', ''EUR'')]\<rparr>"

text \<open>The three aggregations, each with the table of per-asset returns it weights.\<close>

definition aggregators ::
  "((perfomances_with_weights \<Rightarrow> series) \<times> (perfomances_with_weights \<Rightarrow> dataframe)) list" where
  "aggregators =
     [(calculate_price_perfomance_according_on_weights, rt),
      (calculate_currency_perfomance_according_on_weights, crt),
      (calculate_total_perfomance_according_on_weights, trt)]"

text \<open>The example with an exchange-rate table that has no row for day 3.\<close>

definition example_gap :: asset_perfomances where
  "example_gap =
     example_tables\<lparr>exchanges := \<lparr>df_index = [0, 1, 2, 4],
                                    df_cols = [(''EUR'', [Fin 1, Fin 2, NaN, Fin 4])]\<rparr>\<rparr>"

text \<open>The example with weights observed on the days 0 and 2 only, and the object built from it.\<close>

definition example_short :: asset_perfomances where
  "example_short =
     example_tables\<lparr>weights := \<lparr>df_index = [0, 2],
                                  df_cols = [(''A'', [Fin (1/2), Fin (1/2)]),
                                             (''B'', [Fin (1/2), Fin (1/2)])]\<rparr>\<rparr>"

definition example_short_weighted :: perfomances_with_weights where
  "example_short_weighted =
     example_weighted\<lparr>weights := weights example_short,
                       weights_daily := \<lparr>df_index = [0, 1],
                                         df_cols = [(''A'', [Fin (1/2), Fin (1/2)]),
                                                    (''B'', [Fin (1/2), Fin (1/2)])]\<rparr>\<rparr>"

section \<open>The example, evaluated\<close>

lemma example_weighted_init: "PerfomancesWithWeights_init example_tables = Inr example_weighted"
  by code_simp

lemma example_init: "TotalPerfomance_init example_tables = Inr example_object"
  by code_simp

section \<open>Properties of the compounding engine\<close>

lemma get_loc_Pos:
  assumes "get_loc idx d = Inr (Pos s)"
  shows "s < length idx \<and> idx ! s = d"
proof -
  have "filter (\<lambda>i. idx ! i = d) [0 ..< length idx] = [s]"
    using assms by (auto simp: get_loc_def split: list.splits)
  then have "s \<in> set (filter (\<lambda>i. idx ! i = d) [0 ..< length idx])"
    by simp
  then show ?thesis by simp
qed

lemma get_loc_KeyError: "d \<notin> set idx \<Longrightarrow> get_loc idx d = Inl KeyError"
proof -
  assume "d \<notin> set idx"
  then have "filter (\<lambda>i. idx ! i = d) [0 ..< length idx] = []"
    by (auto simp: filter_empty_conv)
  then show ?thesis by (simp add: get_loc_def)
qed

lemma compound_loop_append:
  "compound_loop c p (xs @ ys) = compound_loop c (compound_loop c p xs) ys"
  by (induction xs arbitrary: p) simp_all

lemma compound_loop_snoc:
  "compound_loop c p (xs @ [x]) =
     compound_loop c p xs @ [fmul (last (compound_loop c p xs)) (fadd (Fin 1) (iloc c x))]"
  by (simp add: compound_loop_append)

lemma length_compound_loop: "length (compound_loop c p xs) = length p + length xs"
  by (induction xs arbitrary: p) simp_all

lemma compound_loop_keeps: "j < length p \<Longrightarrow> compound_loop c p xs ! j = p ! j"
  by (induction xs arbitrary: p) (simp_all add: nth_append)

lemma compound_loop_step:
  "p \<noteq> [] \<Longrightarrow> j < length xs \<Longrightarrow>
   compound_loop c p xs ! (length p + j) =
     fmul (compound_loop c p xs ! (length p + j - 1)) (fadd (Fin 1) (iloc c (xs ! j)))"
proof (induction xs arbitrary: j rule: rev_induct)
  case Nil
  then show ?case by simp
next
  case (snoc x xs)
  let ?r = "compound_loop c p xs"
  have len: "length ?r = length p + length xs" by (rule length_compound_loop)
  have ne: "?r \<noteq> []" using snoc.prems(1) len by auto
  show ?case
  proof (cases "j < length xs")
    case True
    then have "length p + j - 1 < length ?r" and "length p + j < length ?r"
      using len by simp_all
    then show ?thesis
      using snoc.IH[OF snoc.prems(1) True] True
      by (simp add: compound_loop_snoc nth_append)
  next
    case False
    then have j: "j = length xs" using snoc.prems(2) by simp
    have "last ?r = ?r ! (length p + length xs - 1)"
      using ne len by (simp add: last_conv_nth)
    then show ?thesis
      using j len snoc.prems(1) by (simp add: compound_loop_snoc nth_append)
  qed
qed

lemma compound_loop_product:
  "j \<le> length xs \<Longrightarrow>
   compound_loop c [seed] xs ! j = foldl fmul seed (map (\<lambda>k. fadd (Fin 1) (iloc c k)) (take j xs))"
proof (induction j)
  case 0
  then show ?case by (simp add: compound_loop_keeps)
next
  case (Suc j)
  then have j: "j < length xs" by simp
  have "compound_loop c [seed] xs ! Suc j =
          fmul (compound_loop c [seed] xs ! j) (fadd (Fin 1) (iloc c (xs ! j)))"
    using compound_loop_step[of "[seed]" j xs c] j by simp
  then show ?case
    using Suc.IH j by (simp add: take_Suc_conv_app_nth)
qed

lemma length_loc_slice: "s \<le> e \<Longrightarrow> e < length idx \<Longrightarrow> length (loc_slice idx s e) = Suc (e - s)"
  by (simp add: loc_slice_def)

lemma loc_slice_inverted: "e < s \<Longrightarrow> loc_slice idx s e = []"
  by (simp add: loc_slice_def)

lemma engine_series:
  fixes seed :: fnum and col :: series and s e :: nat
  assumes e: "get_loc (map fst col) ed = Inr (Pos e)" and se: "s \<le> e"
  defines "vals \<equiv> compound_loop col [seed] [Suc s ..< Suc e]"
  shows "\<exists>out. new_Series vals (loc_slice (map fst col) s e) = Inr out
           \<and> map fst out = loc_slice (map fst col) s e \<and> map snd out = vals
           \<and> length out = Suc (e - s)"
proof -
  have "e < length (map fst col)" using get_loc_Pos[OF e] by simp
  then have l1: "length (loc_slice (map fst col) s e) = Suc (e - s)"
    by (rule length_loc_slice[OF se])
  have l2: "length vals = Suc (e - s)"
    using se by (simp add: vals_def length_compound_loop del: upt_Suc)
  show ?thesis
    using l1 l2 by (simp add: new_Series_def)
qed

lemma engine_values:
  fixes seed :: fnum and col :: series and s e :: nat
  assumes se: "s \<le> e"
  defines "vals \<equiv> compound_loop col [seed] [Suc s ..< Suc e]"
  shows "vals ! 0 = seed"
    and "\<And>i. s < i \<Longrightarrow> i \<le> e \<Longrightarrow> vals ! (i - s) = fmul (vals ! (i - s - 1)) (fadd (Fin 1) (iloc col i))"
    and "\<And>i. s \<le> i \<Longrightarrow> i \<le> e \<Longrightarrow>
           vals ! (i - s) = foldl fmul seed (map (\<lambda>k. fadd (Fin 1) (iloc col k)) [Suc s ..< Suc i])"
proof -
  show "vals ! 0 = seed" by (simp add: vals_def compound_loop_keeps)
next
  fix i assume i: "s < i" "i \<le> e"
  have "compound_loop col [seed] [Suc s ..< Suc e] ! (length [seed] + (i - s - 1)) =
          fmul (compound_loop col [seed] [Suc s ..< Suc e] ! (length [seed] + (i - s - 1) - 1))
               (fadd (Fin 1) (iloc col ([Suc s ..< Suc e] ! (i - s - 1))))"
    using i by (intro compound_loop_step) (simp_all del: upt_Suc)
  moreover have "[Suc s ..< Suc e] ! (i - s - 1) = i" using i by (simp del: upt_Suc)
  moreover have "length [seed] + (i - s - 1) = i - s" using i by simp
  ultimately show "vals ! (i - s) = fmul (vals ! (i - s - 1)) (fadd (Fin 1) (iloc col i))"
    by (simp add: vals_def)
next
  fix i assume i: "s \<le> i" "i \<le> e"
  have "take (i - s) [Suc s ..< Suc e] = [Suc s ..< Suc i]"
    using i by (simp add: take_upt del: upt_Suc)
  then show "vals ! (i - s) = foldl fmul seed (map (\<lambda>k. fadd (Fin 1) (iloc col k)) [Suc s ..< Suc i])"
    using compound_loop_product[of "i - s" "[Suc s ..< Suc e]" col seed] i
    by (simp add: vals_def del: upt_Suc)
qed

lemma init_seeds:
  "TotalPerfomance_init tables = Inr self \<Longrightarrow> P self = Fin 1 \<and> CP self = Fin 1 \<and> TP self = Fin 1"
  by (auto simp: TotalPerfomance_init_def split: sum.splits)

lemma query_cases:
  assumes init: "TotalPerfomance_init tables = Inr self"
    and q: "(query, column) \<in> set query_operations"
  shows "query self start_date end_date =
     (case get_loc (map fst (column self)) start_date of
        Inl err \<Rightarrow> Inl err
      | Inr start \<Rightarrow>
     (case get_loc (map fst (column self)) end_date of
        Inl err \<Rightarrow> Inl err
      | Inr finish \<Rightarrow>
     (case (start, finish) of
        (Pos s, Pos e) \<Rightarrow>
          new_Series (compound_loop (column self) [Fin 1] [Suc s ..< Suc e])
            (loc_slice (map fst (column self)) s e)
      | _ \<Rightarrow> Inl TypeError)))"
proof -
  from q have "(query = calculate_asset_performance \<and> column = res_t)
      \<or> (query = calculate_currency_performance \<and> column = currency_res_t)
      \<or> (query = calculate_total_performance \<and> column = total_res_t)"
    by (auto simp: query_operations_def)
  then show ?thesis
    using init_seeds[OF init]
    by (auto simp: calculate_asset_performance_def calculate_currency_performance_def
        calculate_total_performance_def get_index_of_start_date_element_def
        get_index_of_end_date_element_def split: sum.splits loc.splits)
qed

lemma foldl_fmul_Fin:
  "\<forall>k \<in> set ks. g k = Fin (r k) \<Longrightarrow>
   foldl fmul (Fin a) (map (\<lambda>k. fadd (Fin 1) (g k)) ks) = Fin (a * prod_list (map (\<lambda>k. 1 + r k) ks))"
  by (induction ks arbitrary: a) (simp_all add: mult.assoc)

text \<open>
  Claim C1. For an object built by the constructor and a range whose dates are found at
  the positions \<open>s \<le> e\<close> of the metric's return series, each of the three queries
  returns a series over the dates from \<open>s\<close> to \<open>e\<close>; its first value is 1, every later
  value is the one before times \<open>1 + return\<close>, hence the product, taken from the left, of
  the factors \<open>1 + return[k]\<close> for \<open>k\<close> from \<open>s + 1\<close>; for finite returns this is the
  product over the reals.
\<close>

theorem compounded_series_recurrence:
  assumes init: "TotalPerfomance_init tables = Inr self"
    and q: "(query, column) \<in> set query_operations"
    and s: "get_loc (map fst (column self)) start_date = Inr (Pos s)"
    and e: "get_loc (map fst (column self)) end_date = Inr (Pos e)"
    and se: "s \<le> e"
  shows "\<exists>out. query self start_date end_date = Inr out
      \<and> map fst out = loc_slice (map fst (column self)) s e
      \<and> length out = e - s + 1
      \<and> snd (out ! 0) = Fin 1
      \<and> (\<forall>i. s < i \<and> i \<le> e \<longrightarrow>
            snd (out ! (i - s)) = fmul (snd (out ! (i - s - 1))) (fadd (Fin 1) (iloc (column self) i)))
      \<and> (\<forall>i. s \<le> i \<and> i \<le> e \<longrightarrow>
            snd (out ! (i - s)) =
              foldl fmul (Fin 1) (map (\<lambda>k. fadd (Fin 1) (iloc (column self) k)) [Suc s ..< Suc i]))
      \<and> ((\<forall>k. s < k \<and> k \<le> e \<longrightarrow> iloc (column self) k = Fin (r k)) \<longrightarrow>
          (\<forall>i. s \<le> i \<and> i \<le> e \<longrightarrow> snd (out ! (i - s)) = Fin (\<Prod>k \<in> {s <.. i}. 1 + r k)))"
proof -
  let ?vals = "compound_loop (column self) [Fin 1] [Suc s ..< Suc e]"
  have run: "query self start_date end_date = new_Series ?vals (loc_slice (map fst (column self)) s e)"
    using query_cases[OF init q, of start_date end_date] s e by simp
  obtain out where out: "new_Series ?vals (loc_slice (map fst (column self)) s e) = Inr out"
    "map fst out = loc_slice (map fst (column self)) s e" "map snd out = ?vals" "length out = Suc (e - s)"
    using engine_series[OF e se, of "Fin 1"] by blast
  have nth: "snd (out ! j) = ?vals ! j" if "j < Suc (e - s)" for j
    using that out(3,4) by (metis nth_map)
  have first: "snd (out ! 0) = Fin 1"
    using nth[of 0] engine_values(1)[OF se, of "column self" "Fin 1"] by simp
  have step: "snd (out ! (i - s)) = fmul (snd (out ! (i - s - 1))) (fadd (Fin 1) (iloc (column self) i))"
    if "s < i" "i \<le> e" for i
  proof -
    have "i - s < Suc (e - s)" "i - s - 1 < Suc (e - s)" using that by simp_all
    then show ?thesis
      using engine_values(2)[OF se that, of "column self" "Fin 1"] nth by simp
  qed
  have prod: "snd (out ! (i - s)) =
      foldl fmul (Fin 1) (map (\<lambda>k. fadd (Fin 1) (iloc (column self) k)) [Suc s ..< Suc i])"
    if "s \<le> i" "i \<le> e" for i
  proof -
    have "i - s < Suc (e - s)" using that by simp
    then show ?thesis
      using engine_values(3)[OF se that, of "column self" "Fin 1"] nth by simp
  qed
  have real: "snd (out ! (i - s)) = Fin (\<Prod>k \<in> {s <.. i}. 1 + r k)"
    if fin: "\<forall>k. s < k \<and> k \<le> e \<longrightarrow> iloc (column self) k = Fin (r k)" and "s \<le> i" "i \<le> e" for i
  proof -
    have "\<forall>k \<in> set [Suc s ..< Suc i]. iloc (column self) k = Fin (r k)"
      using fin that by auto
    then have "snd (out ! (i - s)) = Fin (prod_list (map (\<lambda>k. 1 + r k) [Suc s ..< Suc i]))"
      using prod[OF that(2,3)] foldl_fmul_Fin[of "[Suc s ..< Suc i]" "iloc (column self)" r 1]
      by (simp del: upt_Suc)
    moreover have "prod_list (map (\<lambda>k. 1 + r k) [Suc s ..< Suc i]) = (\<Prod>k \<in> set [Suc s ..< Suc i]. 1 + r k)"
      by (rule prod.distinct_set_conv_list[symmetric]) simp
    moreover have "set [Suc s ..< Suc i] = {s <.. i}" by auto
    ultimately show ?thesis by (simp only:)
  qed
  show ?thesis
    using run out(1,2,4) first step prod real by auto
qed

theorem compounded_series_recurrence_witness:
  "TotalPerfomance_init example_tables = Inr example_object
   \<and> (calculate_total_performance, total_res_t) \<in> set query_operations
   \<and> get_loc (map fst (total_res_t example_object)) 1 = Inr (Pos 1)
   \<and> get_loc (map fst (total_res_t example_object)) 3 = Inr (Pos 3)
   \<and> (1 :: nat) \<le> 3
   \<and> (\<exists>out. calculate_total_performance example_object 1 3 = Inr out
         \<and> map fst out = [1, 2, 3]
         \<and> snd (out ! 0) = Fin 1
         \<and> snd (out ! 1) = fmul (snd (out ! 0)) (fadd (Fin 1) (Fin (1/4)))
         \<and> snd (out ! 2) = Fin ((1 + 1/4) * (1 + 1/2)))"
proof -
  have q: "(calculate_total_performance, total_res_t) \<in> set query_operations"
    by (simp add: query_operations_def)
  have s: "get_loc (map fst (total_res_t example_object)) 1 = Inr (Pos 1)"
    by code_simp
  have e: "get_loc (map fst (total_res_t example_object)) 3 = Inr (Pos 3)"
    by code_simp
  have se: "(1 :: nat) \<le> 3" by simp
  have slice: "loc_slice (map fst (total_res_t example_object)) 1 3 = [1, 2, 3]"
    by code_simp
  have r2: "iloc (total_res_t example_object) 2 = Fin (1/4)"
    by code_simp
  have r3: "iloc (total_res_t example_object) 3 = Fin (1/2)"
    by code_simp
  define r :: "nat \<Rightarrow> real" where "r k = (if k = 2 then 1/4 else 1/2)" for k
  have fin: "\<forall>k. 1 < k \<and> k \<le> 3 \<longrightarrow> iloc (total_res_t example_object) k = Fin (r k)"
  proof (intro allI impI)
    fix k :: nat assume "1 < k \<and> k \<le> 3"
    then have "k = 2 \<or> k = 3" by auto
    then show "iloc (total_res_t example_object) k = Fin (r k)"
      using r2 r3 by (auto simp: r_def)
  qed
  have set3: "{Suc 0 <.. 3} = {2, 3}" by auto
  have p3: "(\<Prod>k \<in> {Suc 0 <.. 3}. 1 + r k) = (1 + 1/4) * (1 + 1/2)"
    by (simp add: set3 r_def)
  obtain out where out: "calculate_total_performance example_object 1 3 = Inr out"
      "map fst out = loc_slice (map fst (total_res_t example_object)) 1 3"
      "snd (out ! 0) = Fin 1"
      "\<forall>i. 1 < i \<and> i \<le> 3 \<longrightarrow>
          snd (out ! (i - 1)) = fmul (snd (out ! (i - 1 - 1))) (fadd (Fin 1) (iloc (total_res_t example_object) i))"
      "(\<forall>k. 1 < k \<and> k \<le> 3 \<longrightarrow> iloc (total_res_t example_object) k = Fin (r k)) \<longrightarrow>
          (\<forall>i. 1 \<le> i \<and> i \<le> 3 \<longrightarrow> snd (out ! (i - 1)) = Fin (\<Prod>k \<in> {1 <.. i}. 1 + r k))"
    using compounded_series_recurrence[OF example_init q s e se, of r] by blast
  have "snd (out ! (2 - 1)) = fmul (snd (out ! (2 - 1 - 1))) (fadd (Fin 1) (iloc (total_res_t example_object) 2))"
    using out(4)[rule_format, of 2] by simp
  then have step: "snd (out ! 1) = fmul (snd (out ! 0)) (fadd (Fin 1) (Fin (1/4)))"
    using r2 by simp
  have "\<forall>i. 1 \<le> i \<and> i \<le> 3 \<longrightarrow> snd (out ! (i - 1)) = Fin (\<Prod>k \<in> {1 <.. i}. 1 + r k)"
    using out(5) fin by (rule mp)
  then have "snd (out ! (3 - 1)) = Fin (\<Prod>k \<in> {1 <.. 3}. 1 + r k)"
    by (elim allE[of _ 3]) simp
  then have prod: "snd (out ! 2) = Fin ((1 + 1/4) * (1 + 1/2))"
    using p3 by simp
  show ?thesis
    using example_init q s e out(1,2,3) slice step prod by simp
qed

text \<open>
  Claim C6. A query whose start or end date is not a label of the metric's return series
  raises \<open>KeyError\<close> (the date is not found); a query whose start is found at a position
  after the end raises \<open>ValueError\<close> (the range is inverted). Either way the result is
  the error and no series.
\<close>

theorem query_errors:
  assumes init: "TotalPerfomance_init tables = Inr self"
    and q: "(query, column) \<in> set query_operations"
  shows "(start_date \<notin> set (map fst (column self)) \<or> end_date \<notin> set (map fst (column self))
            \<longrightarrow> query self start_date end_date = Inl KeyError)
       \<and> (get_loc (map fst (column self)) start_date = Inr (Pos s)
            \<and> get_loc (map fst (column self)) end_date = Inr (Pos e) \<and> e < s
            \<longrightarrow> query self start_date end_date = Inl ValueError)"
proof (intro conjI impI)
  assume "start_date \<notin> set (map fst (column self)) \<or> end_date \<notin> set (map fst (column self))"
  then have "get_loc (map fst (column self)) start_date = Inl KeyError
      \<or> get_loc (map fst (column self)) end_date = Inl KeyError"
    using get_loc_KeyError by blast
  moreover have "get_loc idx d = Inl err \<Longrightarrow> err = KeyError" for idx d err
    by (auto simp: get_loc_def split: list.splits)
  ultimately show "query self start_date end_date = Inl KeyError"
    using query_cases[OF init q, of start_date end_date]
    by (auto split: sum.splits)
next
  assume a: "get_loc (map fst (column self)) start_date = Inr (Pos s)
            \<and> get_loc (map fst (column self)) end_date = Inr (Pos e) \<and> e < s"
  then have "[Suc s ..< Suc e] = []" by simp
  then show "query self start_date end_date = Inl ValueError"
    using query_cases[OF init q, of start_date end_date] a
    by (simp add: new_Series_def loc_slice_inverted del: upt_Suc)
qed

theorem query_errors_witness:
  "TotalPerfomance_init example_tables = Inr example_object
   \<and> (calculate_asset_performance, res_t) \<in> set query_operations
   \<and> 7 \<notin> set (map fst (res_t example_object))
   \<and> calculate_asset_performance example_object 1 7 = Inl KeyError
   \<and> get_loc (map fst (res_t example_object)) 3 = Inr (Pos 3)
   \<and> get_loc (map fst (res_t example_object)) 1 = Inr (Pos 1)
   \<and> (1 :: nat) < 3
   \<and> calculate_asset_performance example_object 3 1 = Inl ValueError"
proof -
  have q: "(calculate_asset_performance, res_t) \<in> set query_operations"
    by (simp add: query_operations_def)
  have missing: "7 \<notin> set (map fst (res_t example_object))"
    by code_simp
  have s: "get_loc (map fst (res_t example_object)) 3 = Inr (Pos 3)"
    by code_simp
  have e: "get_loc (map fst (res_t example_object)) 1 = Inr (Pos 1)"
    by code_simp
  have "calculate_asset_performance example_object 1 7 = Inl KeyError"
    using query_errors[OF example_init q, of 1 7] missing by simp
  moreover have "calculate_asset_performance example_object 3 1 = Inl ValueError"
    using query_errors[OF example_init q, of 3 1 3 1] s e by simp
  ultimately show ?thesis
    using example_init q missing s e by simp
qed

text \<open>
  Claim C10. A query from a date of the metric's return series to the same date returns
  the series with the single entry 1 on that date.
\<close>

theorem single_day_query:
  assumes init: "TotalPerfomance_init tables = Inr self"
    and q: "(query, column) \<in> set query_operations"
    and s: "get_loc (map fst (column self)) day = Inr (Pos s)"
  shows "query self day day = Inr [(day, Fin 1)]"
proof -
  have "s < length (map fst (column self))" "map fst (column self) ! s = day"
    using get_loc_Pos[OF s] by simp_all
  then have "loc_slice (map fst (column self)) s s = [day]"
    unfolding loc_slice_def by (simp add: take_Suc_conv_app_nth)
  then show ?thesis
    using query_cases[OF init q, of day day] s by (simp add: new_Series_def)
qed

theorem single_day_query_witness:
  "TotalPerfomance_init example_tables = Inr example_object
   \<and> (calculate_currency_performance, currency_res_t) \<in> set query_operations
   \<and> get_loc (map fst (currency_res_t example_object)) 2 = Inr (Pos 2)
   \<and> calculate_currency_performance example_object 2 2 = Inr [(2, Fin 1)]"
proof -
  have q: "(calculate_currency_performance, currency_res_t) \<in> set query_operations"
    by (simp add: query_operations_def)
  have s: "get_loc (map fst (currency_res_t example_object)) 2 = Inr (Pos 2)"
    by code_simp
  show ?thesis
    using single_day_query[OF example_init q s] example_init q s by simp
qed

section \<open>Properties of the return calculator\<close>

lemma length_ffill_from: "length (ffill_from prev xs) = length xs"
  by (induction xs arbitrary: prev) simp_all

lemma length_replace_na_values: "length (replace_na_values column) = length column"
  by (simp add: replace_na_values_def bfill_def ffill_def length_ffill_from)

lemma filter_eq_distinct:
  "distinct xs \<Longrightarrow> filter (\<lambda>x. x = d) xs = (if d \<in> set xs then [d] else [])"
  by (induction xs) auto

lemma join_labels_distinct: "distinct idx \<Longrightarrow> join_labels idx d = [d]"
  by (simp add: join_labels_def filter_eq_distinct)

lemma matches_distinct:
  "distinct idx \<Longrightarrow>
   map snd (filter (\<lambda>p. fst p = d) (zip idx vs)) =
     (case map_of (zip idx vs) d of None \<Rightarrow> [] | Some v \<Rightarrow> [v])"
proof (induction idx arbitrary: vs)
  case Nil
  then show ?case by simp
next
  case (Cons a idx)
  show ?case
  proof (cases vs)
    case Nil
    then show ?thesis by simp
  next
    case (Cons v ws)
    have "a = d \<Longrightarrow> filter (\<lambda>p. fst p = d) (zip idx ws) = []"
      using Cons.prems by (auto simp: filter_empty_conv dest: set_zip_leftD)
    then show ?thesis
      using Cons Cons.IH[of ws] Cons.prems by auto
  qed
qed

lemma join_values_distinct:
  "distinct idx \<Longrightarrow>
   join_values idx vs d = [case map_of (zip idx vs) d of None \<Rightarrow> NaN | Some v \<Rightarrow> v]"
  by (simp add: join_values_def matches_distinct split: option.splits)

lemma get_new_index_distinct:
  assumes "df_index df \<noteq> []" and "distinct (df_index df)"
  shows "get_new_index df =
     Inr \<lparr>df_index = date_range (hd (df_index df)) (last (df_index df)),
          df_cols = map (\<lambda>(c, vs). (c, map (observed_on (df_index df) vs)
                                          (date_range (hd (df_index df)) (last (df_index df)))))
                        (df_cols df)\<rparr>"
proof -
  obtain first others where idx: "df_index df = first # others"
    using assms(1) by (cases "df_index df") auto
  have 1: "concat (map (join_labels (df_index df)) days) = days" for days
    using assms(2) by (induction days) (simp_all add: join_labels_distinct)
  have 2: "concat (map (join_values (df_index df) vs) days) = map (observed_on (df_index df) vs) days"
    for vs days
    using assms(2) by (induction days) (simp_all add: join_values_distinct observed_on_def)
  show ?thesis
    unfolding get_new_index_def Let_def 1 2 using idx by simp
qed

lemma new_column:
  assumes "df_index df \<noteq> []" and "distinct (df_index df)" and "map_of (df_cols df) asset = Some observed"
  shows "\<exists>new_df. get_new_index df = Inr new_df \<and>
     df_getitem new_df asset =
       Inr (map (observed_on (df_index df) observed) (date_range (hd (df_index df)) (last (df_index df))))"
  using assms(3)
  by (simp add: get_new_index_distinct[OF assms(1,2)] df_getitem_def map_of_map comp_def)

lemma find_append_cases:
  "find ok (xs @ ys) = (case find ok xs of None \<Rightarrow> find ok ys | Some x \<Rightarrow> Some x)"
  by (induction xs) simp_all

lemma ffill_from_nth:
  "t < length xs \<Longrightarrow>
   ffill_from prev xs ! t = (case last_known xs t of Some v \<Rightarrow> v | None \<Rightarrow> prev)"
proof (induction xs arbitrary: prev t)
  case Nil
  then show ?case by simp
next
  case (Cons x xs)
  show ?case
  proof (cases t)
    case 0
    then show ?thesis by (simp add: last_known_def)
  next
    case (Suc n)
    then have n: "n < length xs" using Cons.prems by simp
    have "last_known (x # xs) (Suc n) =
        (case last_known xs n of None \<Rightarrow> (if x \<noteq> NaN then Some x else None) | Some v \<Rightarrow> Some v)"
      by (simp add: last_known_def find_append_cases split: option.splits)
    then show ?thesis
      using Suc Cons.IH[OF n] by (simp split: option.splits)
  qed
qed

lemma find_ffill_from: "find (\<lambda>v. v \<noteq> NaN) (ffill_from NaN xs) = find (\<lambda>v. v \<noteq> NaN) xs"
  by (induction xs) simp_all

lemma bfill_nth:
  assumes "t < length ys"
  shows "bfill ys ! t = (case find (\<lambda>v. v \<noteq> NaN) (drop t ys) of Some v \<Rightarrow> v | None \<Rightarrow> NaN)"
proof -
  let ?n = "length ys"
  have len: "length (ffill_from NaN (rev ys)) = ?n"
    by (simp add: length_ffill_from)
  have "bfill ys ! t = ffill_from NaN (rev ys) ! (?n - Suc t)"
    using assms len by (simp add: bfill_def ffill_def rev_nth)
  also have "\<dots> = (case last_known (rev ys) (?n - Suc t) of Some v \<Rightarrow> v | None \<Rightarrow> NaN)"
    using assms by (intro ffill_from_nth) simp
  also have "rev (take (Suc (?n - Suc t)) (rev ys)) = drop t ys"
    using assms by (simp add: take_rev Suc_diff_Suc)
  then have "last_known (rev ys) (?n - Suc t) = find (\<lambda>v. v \<noteq> NaN) (drop t ys)"
    by (simp add: last_known_def)
  finally show ?thesis by simp
qed

lemma replace_na_values_nth:
  assumes t: "t < length xs"
  shows "replace_na_values xs ! t = gap_filled xs t"
proof -
  let ?ys = "ffill xs"
  have len: "length ?ys = length xs"
    by (simp add: ffill_def length_ffill_from)
  have ys: "?ys ! i = (case last_known xs i of Some v \<Rightarrow> v | None \<Rightarrow> NaN)" if "i < length xs" for i
    using that by (simp add: ffill_def ffill_from_nth)
  have run: "replace_na_values xs ! t =
      (case find (\<lambda>v. v \<noteq> NaN) (drop t ?ys) of Some v \<Rightarrow> v | None \<Rightarrow> NaN)"
    using t len by (simp add: replace_na_values_def bfill_nth)
  have split: "drop t ?ys = ?ys ! t # drop (Suc t) ?ys"
    using t len by (simp add: Cons_nth_drop_Suc)
  show ?thesis
  proof (cases "last_known xs t")
    case (Some v)
    then have "v \<noteq> NaN"
      by (auto simp: last_known_def find_Some_iff)
    then show ?thesis
      using Some run split ys[OF t] by (simp add: gap_filled_def)
  next
    case None
    then have all: "\<forall>v \<in> set (take (Suc t) xs). v = NaN"
      by (auto simp: last_known_def find_None_iff)
    have "?ys ! i = NaN" if "i < t" for i
    proof -
      have "set (take (Suc i) xs) \<subseteq> set (take (Suc t) xs)"
        using that by (intro set_take_subset_set_take) simp
      then have "last_known xs i = None"
        using all by (auto simp: last_known_def find_None_iff)
      then show ?thesis using ys[of i] that t by simp
    qed
    then have "\<forall>v \<in> set (take t ?ys). v = NaN"
      using t len by (auto simp: in_set_conv_nth)
    then have none: "find (\<lambda>v. v \<noteq> NaN) (take t ?ys) = None"
      by (auto simp: find_None_iff)
    have "find (\<lambda>v. v \<noteq> NaN) ?ys = find (\<lambda>v. v \<noteq> NaN) (take t ?ys @ drop t ?ys)"
      by simp
    also have "\<dots> = find (\<lambda>v. v \<noteq> NaN) (drop t ?ys)"
      unfolding find_append_cases none by simp
    finally have "find (\<lambda>v. v \<noteq> NaN) (drop t ?ys) = first_known xs"
      by (simp add: first_known_def ffill_def find_ffill_from)
    then show ?thesis
      using None run by (simp add: gap_filled_def)
  qed
qed

lemma filled_prices_code:
  "filled_prices self observed =
     replace_na_values (map (observed_on (df_index (prices self)) observed) (calendar (prices self)))"
  by (intro nth_equalityI)
     (simp_all add: filled_prices_def daily_prices_def length_replace_na_values replace_na_values_nth)

lemma length_filled_prices: "length (filled_prices self observed) = length (calendar (prices self))"
  by (simp add: filled_prices_def daily_prices_def)

lemma price_returns_run:
  assumes rows: "df_index (prices self) \<noteq> []"
    and dist: "distinct (df_index (prices self))"
    and col: "map_of (df_cols (prices self)) asset = Some observed"
  shows "count_return_prices_for_asset self asset =
     Inr (map (\<lambda>i. fdiv (fsub (filled_prices self observed ! i) (filled_prices self observed ! (i - 1)))
                        (filled_prices self observed ! (i - 1)))
              [1 ..< length (calendar (prices self))])"
proof -
  obtain new_df where "get_new_index (prices self) = Inr new_df"
    "df_getitem new_df asset = Inr (map (observed_on (df_index (prices self)) observed) (calendar (prices self)))"
    using new_column[OF rows dist col] unfolding calendar_def date_range_def by blast
  then show ?thesis
    by (simp add: count_return_prices_for_asset_def filled_prices_code Let_def length_replace_na_values)
qed

lemma total_loop_run:
  "\<forall>i \<in> set is. i < length currency_for_asset \<Longrightarrow>
   total_loop currency_for_asset new_prices is =
     Inr (map (\<lambda>i. fdiv (fsub (fmul (currency_for_asset ! i) (new_prices ! i))
                               (fmul (currency_for_asset ! (i - 1)) (new_prices ! (i - 1))))
                         (fmul (currency_for_asset ! (i - 1)) (new_prices ! (i - 1)))) is)"
  by (induction "is") (simp_all add: Let_def)

lemma total_returns_run:
  assumes rows: "df_index (prices self) \<noteq> []"
    and dist: "distinct (df_index (prices self))"
    and col: "map_of (df_cols (prices self)) asset = Some observed"
    and series: "get_series_by_currency self asset = Column rate"
    and enough: "length (calendar (prices self)) \<le> length rate"
  shows "count_total_perfomance_for_asset self asset =
     Inr (map (\<lambda>i. fdiv (fsub (fmul (rate ! i) (filled_prices self observed ! i))
                               (fmul (rate ! (i - 1)) (filled_prices self observed ! (i - 1))))
                         (fmul (rate ! (i - 1)) (filled_prices self observed ! (i - 1))))
              [1 ..< length (calendar (prices self))])"
proof -
  obtain new_df where "get_new_index (prices self) = Inr new_df"
    "df_getitem new_df asset = Inr (map (observed_on (df_index (prices self)) observed) (calendar (prices self)))"
    using new_column[OF rows dist col] unfolding calendar_def date_range_def by blast
  moreover have "\<forall>i \<in> set [1 ..< length (calendar (prices self))]. i < length rate"
    using enough by auto
  ultimately show ?thesis
    using series total_loop_run[of "[1 ..< length (calendar (prices self))]" rate "filled_prices self observed"]
    by (simp add: count_total_perfomance_for_asset_def filled_prices_code Let_def length_replace_na_values
        del: upt_Suc)
qed

lemma fmul_one_left: "fmul (Fin 1) x = x"
  by (cases x) simp_all

lemma example_price_table:
  "df_index (prices example_tables) \<noteq> []"
  "distinct (df_index (prices example_tables))"
  "map_of (df_cols (prices example_tables)) ''A'' = Some [Fin 1, Fin 2, Fin 3, Fin 6]"
  "map_of (df_cols (prices example_tables)) ''B'' = Some [Fin 10, Fin 20, NaN, Fin 20]"
  "calendar (prices example_tables) = [0, 1, 2, 3, 4]"
  by code_simp+

lemma example_unknown_price_table:
  "df_index (prices example_unknown) \<noteq> []"
  "distinct (df_index (prices example_unknown))"
  "map_of (df_cols (prices example_unknown)) ''B'' = Some [Fin 10, Fin 20, NaN, Fin 20]"
  "calendar (prices example_unknown) = [0, 1, 2, 3, 4]"
  by code_simp+

lemma example_leading_price_table:
  "df_index (prices example_leading) \<noteq> []"
  "distinct (df_index (prices example_leading))"
  "map_of (df_cols (prices example_leading)) ''C'' = Some [NaN, Fin 4, Fin 8]"
  "calendar (prices example_leading) = [0, 1, 2, 3]"
  "daily_prices example_leading [NaN, Fin 4, Fin 8] = [NaN, Fin 4, NaN, Fin 8]"
  "filled_prices example_leading [NaN, Fin 4, Fin 8] = [Fin 4, Fin 4, Fin 4, Fin 8]"
  by code_simp+

text \<open>
  Claim C2. For a price table with at least one row and no repeated date, and an asset
  that is one of its columns, the price return has one entry for every day \<open>t > 0\<close> of
  the daily calendar from the first to the last date of the table, and the entry is
  \<open>(price[t] - price[t-1]) / price[t-1]\<close> on the gap-filled daily prices: the price of a
  day is the last price known at or before the day, and the first known price for the
  days before any price is known.
\<close>

theorem price_return_formula:
  assumes rows: "df_index (prices self) \<noteq> []"
    and dist: "distinct (df_index (prices self))"
    and col: "map_of (df_cols (prices self)) asset = Some observed"
  shows "\<exists>r. count_return_prices_for_asset self asset = Inr r
      \<and> length r = length (calendar (prices self)) - 1
      \<and> (\<forall>t. 0 < t \<and> t < length (calendar (prices self)) \<longrightarrow>
            r ! (t - 1) = fdiv (fsub (filled_prices self observed ! t) (filled_prices self observed ! (t - 1)))
                               (filled_prices self observed ! (t - 1)))"
proof -
  have "[1 ..< n] ! (t - 1) = t" if "0 < t" "t < n" for t n :: nat
    using that by simp
  then show ?thesis
    unfolding price_returns_run[OF rows dist col] by (auto simp del: upt_Suc)
qed

theorem price_return_formula_witness:
  "df_index (prices example_leading) \<noteq> []
   \<and> distinct (df_index (prices example_leading))
   \<and> map_of (df_cols (prices example_leading)) ''C'' = Some [NaN, Fin 4, Fin 8]
   \<and> calendar (prices example_leading) = [0, 1, 2, 3]
   \<and> daily_prices example_leading [NaN, Fin 4, Fin 8] = [NaN, Fin 4, NaN, Fin 8]
   \<and> filled_prices example_leading [NaN, Fin 4, Fin 8] = [Fin 4, Fin 4, Fin 4, Fin 8]
   \<and> (\<exists>r. count_return_prices_for_asset example_leading ''C'' = Inr r \<and> length r = 3
         \<and> r ! 0 = fdiv (fsub (Fin 4) (Fin 4)) (Fin 4)
         \<and> r ! 1 = fdiv (fsub (Fin 4) (Fin 4)) (Fin 4)
         \<and> r ! 2 = fdiv (fsub (Fin 8) (Fin 4)) (Fin 4))"
proof -
  note ex = example_leading_price_table
  obtain r where r: "count_return_prices_for_asset example_leading ''C'' = Inr r"
      "length r = length (calendar (prices example_leading)) - 1"
      "\<forall>t. 0 < t \<and> t < length (calendar (prices example_leading)) \<longrightarrow>
         r ! (t - 1) = fdiv (fsub (filled_prices example_leading [NaN, Fin 4, Fin 8] ! t)
                                  (filled_prices example_leading [NaN, Fin 4, Fin 8] ! (t - 1)))
                            (filled_prices example_leading [NaN, Fin 4, Fin 8] ! (t - 1))"
    using price_return_formula[OF ex(1,2,3)] by blast
  have "r ! 0 = fdiv (fsub (Fin 4) (Fin 4)) (Fin 4)"
    using r(3)[rule_format, of 1] by (simp add: ex(4,6))
  moreover have "r ! 1 = fdiv (fsub (Fin 4) (Fin 4)) (Fin 4)"
    using r(3)[rule_format, of 2] by (simp add: ex(4,6))
  moreover have "r ! 2 = fdiv (fsub (Fin 8) (Fin 4)) (Fin 4)"
    using r(3)[rule_format, of 3] by (simp add: ex(4,6))
  ultimately show ?thesis
    using ex r(1,2) by simp
qed

text \<open>
  Claim C3 fails on the code: the total return reads the exchange rates by row position
  in the exchange-rate table, which is never put on the daily calendar of the prices.
  With an exchange-rate table of four rows and a price calendar of five days, the total
  return of the asset in \<open>USD\<close> raises \<open>IndexError\<close>, although its rate is the
  constant 1 and its price return exists. With exchange rates from day 0 and prices from
  day 1, the price of a day is multiplied by the rate of the day before: prices and rates
  are constant over the days 1 to 3, so every value \<open>price[t] * rate[t]\<close> is 20 and
  the total return is 0 on both days, but the code returns 1 on the first.
\<close>

theorem total_return_reads_rates_by_row:
  "count_total_perfomance_for_asset example_gap ''A'' = Inl IndexError
   \<and> map_of (currencies example_gap) ''A'' = Some ''USD''
   \<and> count_return_prices_for_asset example_gap ''A'' = Inr [Fin 1, Fin (1/2), Fin 0, Fin 1]
   \<and> calendar (prices example_shifted) = [1, 2, 3]
   \<and> filled_prices example_shifted [Fin 10, Fin 10, Fin 10] = [Fin 10, Fin 10, Fin 10]
   \<and> map (observed_on (df_index (exchanges example_shifted)) [Fin 1, Fin 2, Fin 2, Fin 2])
          (calendar (prices example_shifted)) = [Fin 2, Fin 2, Fin 2]
   \<and> count_total_perfomance_for_asset example_shifted ''B'' = Inr [Fin 1, Fin 0]"
  by code_simp

text \<open>
  Claim C4. For an asset whose currency is the base currency \<open>USD\<close> the currency return
  is 0 at every entry (one entry less than the rows of the exchange-rate table), and the
  tables are left as they are.
\<close>

theorem base_currency_zero_return:
  assumes "map_of (currencies self) asset = Some ''USD''"
  shows "\<exists>r. count_currency_perfomance_for_asset self asset = Inr (r, self)
      \<and> length r = length (df_index (exchanges self)) - 1
      \<and> (\<forall>t. t < length r \<longrightarrow> r ! t = Fin 0)"
  using assms by (simp add: count_currency_perfomance_for_asset_def)

theorem base_currency_zero_return_witness:
  "map_of (currencies example_tables) ''A'' = Some ''USD''
   \<and> count_currency_perfomance_for_asset example_tables ''A'' =
       Inr ([Fin 0, Fin 0, Fin 0, Fin 0], example_tables)"
proof -
  have cur: "map_of (currencies example_tables) ''A'' = Some ''USD''"
    by code_simp
  have rows: "length (df_index (exchanges example_tables)) - 1 = 4"
    by code_simp
  obtain r where r: "count_currency_perfomance_for_asset example_tables ''A'' = Inr (r, example_tables)"
      "length r = length (df_index (exchanges example_tables)) - 1"
      "\<forall>t. t < length r \<longrightarrow> r ! t = Fin 0"
    using base_currency_zero_return[OF cur] by blast
  have "r = [Fin 0, Fin 0, Fin 0, Fin 0]"
    using r(2,3) rows by (intro nth_equalityI) (auto simp: nth_Cons')
  then show ?thesis
    using cur r(1) by simp
qed

text \<open>
  Claim C5, as stated, fails: the currency return of an asset in a currency that is
  neither \<open>USD\<close> nor a column of the exchange-rate table raises \<open>KeyError\<close>.
\<close>

theorem unknown_currency_counterexample:
  "map_of (currencies example_unknown) ''B'' = Some ''GBP''
   \<and> map_of (df_cols (exchanges example_unknown)) ''GBP'' = None
   \<and> count_currency_perfomance_for_asset example_unknown ''B'' = Inl KeyError"
  by code_simp

text \<open>
  Claim C5, amended. For an asset whose currency is not a column of the exchange-rate
  table, the total return does not fail and is the price return, provided the
  exchange-rate table has a row for every day of the price calendar; the currency
  return is the series of zeros when the currency is \<open>USD\<close> and raises \<open>KeyError\<close>
  otherwise.
\<close>

theorem absent_currency_behaviour:
  assumes rows: "df_index (prices self) \<noteq> []"
    and dist: "distinct (df_index (prices self))"
    and col: "map_of (df_cols (prices self)) asset = Some observed"
    and cur: "map_of (currencies self) asset = Some code"
    and absent: "map_of (df_cols (exchanges self)) code = None"
    and enough: "length (calendar (prices self)) \<le> length (df_index (exchanges self))"
  shows "(\<exists>r. count_total_perfomance_for_asset self asset = Inr r
            \<and> count_return_prices_for_asset self asset = Inr r)
       \<and> (code = ''USD'' \<longrightarrow>
            count_currency_perfomance_for_asset self asset =
              Inr (replicate (length (df_index (exchanges self)) - 1) (Fin 0), self))
       \<and> (code \<noteq> ''USD'' \<longrightarrow> count_currency_perfomance_for_asset self asset = Inl KeyError)"
proof (intro conjI impI)
  let ?ones = "replicate (length (df_index (exchanges self))) (Fin 1)"
  have series: "get_series_by_currency self asset = Column ?ones"
    using cur absent by (simp add: get_series_by_currency_def df_getitem_def)
  have enough': "length (calendar (prices self)) \<le> length ?ones"
    using enough by simp
  have "fdiv (fsub (fmul (?ones ! i) (p ! i)) (fmul (?ones ! (i - 1)) (p ! (i - 1))))
             (fmul (?ones ! (i - 1)) (p ! (i - 1))) =
        fdiv (fsub (p ! i) (p ! (i - 1))) (p ! (i - 1))"
    if "i \<in> set [1 ..< length (calendar (prices self))]" for i and p :: "fnum list"
  proof -
    have "i < length (df_index (exchanges self))" "i - 1 < length (df_index (exchanges self))"
      using that enough by auto
    then show ?thesis by (simp add: fmul_one_left)
  qed
  then show "\<exists>r. count_total_perfomance_for_asset self asset = Inr r
            \<and> count_return_prices_for_asset self asset = Inr r"
    unfolding total_returns_run[OF rows dist col series enough'] price_returns_run[OF rows dist col]
    by (simp del: upt_Suc)
next
  assume "code = ''USD''"
  then show "count_currency_perfomance_for_asset self asset =
              Inr (replicate (length (df_index (exchanges self)) - 1) (Fin 0), self)"
    using cur by (simp add: count_currency_perfomance_for_asset_def)
next
  assume "code \<noteq> ''USD''"
  then show "count_currency_perfomance_for_asset self asset = Inl KeyError"
    using cur absent by (simp add: count_currency_perfomance_for_asset_def df_getitem_def)
qed

theorem absent_currency_behaviour_witness:
  "df_index (prices example_unknown) \<noteq> []
   \<and> distinct (df_index (prices example_unknown))
   \<and> map_of (df_cols (prices example_unknown)) ''B'' = Some [Fin 10, Fin 20, NaN, Fin 20]
   \<and> map_of (currencies example_unknown) ''B'' = Some ''GBP''
   \<and> map_of (df_cols (exchanges example_unknown)) ''GBP'' = None
   \<and> length (calendar (prices example_unknown)) \<le> length (df_index (exchanges example_unknown))
   \<and> count_total_perfomance_for_asset example_unknown ''B'' = count_return_prices_for_asset example_unknown ''B''
   \<and> count_currency_perfomance_for_asset example_unknown ''B'' = Inl KeyError
   \<and> map_of (currencies example_tables) ''A'' = Some ''USD''
   \<and> map_of (df_cols (exchanges example_tables)) ''USD'' = None
   \<and> length (calendar (prices example_tables)) \<le> length (df_index (exchanges example_tables))
   \<and> count_total_perfomance_for_asset example_tables ''A'' = count_return_prices_for_asset example_tables ''A''
   \<and> count_currency_perfomance_for_asset example_tables ''A'' = Inr ([Fin 0, Fin 0, Fin 0, Fin 0], example_tables)"
proof -
  have cur: "map_of (currencies example_unknown) ''B'' = Some ''GBP''"
    and absent: "map_of (df_cols (exchanges example_unknown)) ''GBP'' = None"
    and cur': "map_of (currencies example_tables) ''A'' = Some ''USD''"
    and absent': "map_of (df_cols (exchanges example_tables)) ''USD'' = None"
    by code_simp+
  have enough: "length (calendar (prices example_unknown)) \<le> length (df_index (exchanges example_unknown))"
    and enough': "length (calendar (prices example_tables)) \<le> length (df_index (exchanges example_tables))"
    by code_simp+
  have zeros: "replicate (length (df_index (exchanges example_tables)) - 1) (Fin 0) = [Fin 0, Fin 0, Fin 0, Fin 0]"
    by code_simp
  have gbp: "''GBP'' \<noteq> ''USD''" by simp
  note u = absent_currency_behaviour[OF example_unknown_price_table(1,2,3) cur absent enough]
  note b = absent_currency_behaviour[OF example_price_table(1,2,3) cur' absent' enough']
  have "count_total_perfomance_for_asset example_unknown ''B'' = count_return_prices_for_asset example_unknown ''B''"
    and "count_currency_perfomance_for_asset example_unknown ''B'' = Inl KeyError"
    using u gbp by auto
  moreover have "count_total_perfomance_for_asset example_tables ''A'' = count_return_prices_for_asset example_tables ''A''"
    and "count_currency_perfomance_for_asset example_tables ''A'' = Inr ([Fin 0, Fin 0, Fin 0, Fin 0], example_tables)"
    using b zeros by auto
  ultimately show ?thesis
    using example_unknown_price_table(1,2,3) cur absent enough cur' absent' enough' by simp
qed

section \<open>Properties of the weight aggregator\<close>

lemma example_short_init: "PerfomancesWithWeights_init example_short = Inr example_short_weighted"
  by code_simp

lemma map_fst_row_sums: "map fst (row_sums df) = df_index df"
  by (simp add: row_sums_def comp_def map_nth)

lemma length_row_sums: "length (row_sums df) = length (df_index df)"
  by (simp add: row_sums_def)

lemma row_sums_df_mul:
  assumes "i < length (df_index (df_mul a b))"
  shows "snd (row_sums (df_mul a b) ! i) =
     foldl fadd (Fin 0)
       (map (\<lambda>c. fmul (df_at a (df_index (df_mul a b) ! i) c) (df_at b (df_index (df_mul a b) ! i) c))
            (index_union (map fst (df_cols a)) (map fst (df_cols b))))"
  using assms by (simp add: row_sums_def df_mul_def Let_def comp_def)

lemma df_index_df_mul: "df_index (df_mul a b) = index_union (df_index a) (df_index b)"
  by (simp add: df_mul_def Let_def)

lemma set_index_union: "set (index_union xs ys) = set xs \<union> set ys"
  by (auto simp: index_union_def)

lemma df_at_missing_row: "d \<notin> set (df_index df) \<Longrightarrow> df_at df d c = NaN"
proof -
  assume d: "d \<notin> set (df_index df)"
  have "map_of (zip (df_index df) vs) d = None" for vs :: "fnum list"
    using d by (auto simp: map_of_eq_None_iff dest: set_zip_leftD)
  then show ?thesis
    by (simp add: df_at_def split: option.splits)
qed

lemma fmul_NaN_right: "fmul x NaN = NaN"
  by (cases x) simp_all

lemma foldl_fadd_NaN: "foldl fadd NaN xs = NaN"
  by (induction xs) simp_all

lemma fadd_NaN_right: "fadd x NaN = NaN"
  by (cases x) simp_all

lemma foldl_fadd_all_NaN: "cs \<noteq> [] \<Longrightarrow> foldl fadd acc (map (\<lambda>c. NaN) cs) = NaN"
  by (cases cs) (simp_all add: fadd_NaN_right foldl_fadd_NaN)

lemma aggregator_cases:
  assumes "(aggregate, table) \<in> set aggregators"
  shows "aggregate self = row_sums (df_mul (table self) (weights_daily self))"
  using assms
  by (auto simp: aggregators_def calculate_price_perfomance_according_on_weights_def
      calculate_currency_perfomance_according_on_weights_def
      calculate_total_perfomance_according_on_weights_def)

text \<open>
  Claim C7 fails on the code for the currency return: the column of the exchange-rate
  table is filled but not put on the daily calendar. With no row for day 3 the calendar
  of the exchange rates has five days, the currency return of the asset in euro has three
  entries instead of four, and the table of currency returns cannot take the calendar as
  its index.
\<close>

theorem currency_returns_not_on_calendar:
  "map_sum id df_index (get_new_index (exchanges example_gap)) = Inr [0, 1, 2, 3, 4]
   \<and> map_sum id fst (count_currency_perfomance_for_asset example_gap ''B'') = Inr [Fin 1, Fin 0, Fin 1]
   \<and> calculate_currency_perfomance_for_all_assets example_gap = Inl ValueError"
  by code_simp

text \<open>
  Claim C8 fails on the code: the weights lose their last day and the product aligns the
  two tables by date, so with prices and weights over the same days 0 to 4 the per-asset
  returns are indexed by the days 1 to 4, while the portfolio return is indexed by the
  days 0 to 4 and is \<open>NaN\<close> on day 0 (no return) and on day 4 (no weight).
\<close>

theorem weighted_returns_misaligned:
  "PerfomancesWithWeights_init example_tables = Inr example_weighted
   \<and> df_index (rt example_weighted) = [1, 2, 3, 4]
   \<and> df_index (weights_daily example_weighted) = [0, 1, 2, 3]
   \<and> calculate_price_perfomance_according_on_weights example_weighted =
       [(0, NaN), (1, Fin 1), (2, Fin (1/4)), (3, Fin 0), (4, NaN)]"
  by code_simp

text \<open>
  Claim C9, as stated, fails: with weights that cover fewer days than the returns the
  portfolio return is not cut to the shorter range. It has the days of both tables.
\<close>

theorem no_truncation_counterexample:
  "PerfomancesWithWeights_init example_short = Inr example_short_weighted
   \<and> df_index (rt example_short_weighted) = [1, 2, 3, 4]
   \<and> df_index (weights_daily example_short_weighted) = [0, 1]
   \<and> calculate_price_perfomance_according_on_weights example_short_weighted =
       [(0, NaN), (1, Fin 1), (2, NaN), (3, NaN), (4, NaN)]"
  by code_simp

text \<open>
  Claim C9, amended. Whatever the date ranges of the two tables (without repeated dates,
  and with at least one asset), each aggregation raises no error and returns a series
  over the dates of either table; an entry is the sum over the assets of return times
  weight, read by date, and is \<open>NaN\<close> on every date that one of the tables lacks.
\<close>

theorem aggregation_alignment:
  assumes agg: "(aggregate, table) \<in> set aggregators"
    and dist: "distinct (df_index (table self))" "distinct (df_index (weights_daily self))"
    and cols: "index_union (map fst (df_cols (table self))) (map fst (df_cols (weights_daily self))) \<noteq> []"
  shows "map fst (aggregate self) = index_union (df_index (table self)) (df_index (weights_daily self))
     \<and> set (map fst (aggregate self)) = set (df_index (table self)) \<union> set (df_index (weights_daily self))
     \<and> (\<forall>i. i < length (aggregate self) \<longrightarrow>
           snd (aggregate self ! i) =
             foldl fadd (Fin 0)
               (map (\<lambda>c. fmul (df_at (table self) (fst (aggregate self ! i)) c)
                              (df_at (weights_daily self) (fst (aggregate self ! i)) c))
                    (index_union (map fst (df_cols (table self))) (map fst (df_cols (weights_daily self))))))
     \<and> (\<forall>i. i < length (aggregate self)
              \<and> (fst (aggregate self ! i) \<notin> set (df_index (table self))
                   \<or> fst (aggregate self ! i) \<notin> set (df_index (weights_daily self)))
           \<longrightarrow> snd (aggregate self ! i) = NaN)"
proof -
  let ?a = "table self" and ?b = "weights_daily self"
  let ?cs = "index_union (map fst (df_cols ?a)) (map fst (df_cols ?b))"
  have run: "aggregate self = row_sums (df_mul ?a ?b)"
    by (rule aggregator_cases[OF agg])
  have idx: "map fst (aggregate self) = index_union (df_index ?a) (df_index ?b)"
    by (simp add: run map_fst_row_sums df_index_df_mul)
  have len: "length (aggregate self) = length (df_index (df_mul ?a ?b))"
    by (simp add: run length_row_sums)
  have label: "fst (aggregate self ! i) = df_index (df_mul ?a ?b) ! i" if "i < length (aggregate self)" for i
    using that idx by (metis df_index_df_mul nth_map)
  have val: "snd (aggregate self ! i) =
      foldl fadd (Fin 0) (map (\<lambda>c. fmul (df_at ?a (fst (aggregate self ! i)) c)
                                     (df_at ?b (fst (aggregate self ! i)) c)) ?cs)"
    if "i < length (aggregate self)" for i
    using that row_sums_df_mul[of i ?a ?b] label[OF that] len by (simp add: run)
  have nan: "snd (aggregate self ! i) = NaN"
    if i: "i < length (aggregate self)"
      and d: "fst (aggregate self ! i) \<notin> set (df_index ?a) \<or> fst (aggregate self ! i) \<notin> set (df_index ?b)"
    for i
  proof -
    have "fmul (df_at ?a (fst (aggregate self ! i)) c) (df_at ?b (fst (aggregate self ! i)) c) = NaN" for c
      using d by (auto simp: df_at_missing_row fmul_NaN_right)
    then show ?thesis
      using val[OF i] foldl_fadd_all_NaN[OF cols] by simp
  qed
  show ?thesis
    using idx val nan by (simp add: set_index_union)
qed

theorem aggregation_alignment_witness:
  "(calculate_price_perfomance_according_on_weights, rt) \<in> set aggregators
   \<and> distinct (df_index (rt example_short_weighted))
   \<and> distinct (df_index (weights_daily example_short_weighted))
   \<and> index_union (map fst (df_cols (rt example_short_weighted)))
        (map fst (df_cols (weights_daily example_short_weighted))) \<noteq> []
   \<and> map fst (calculate_price_perfomance_according_on_weights example_short_weighted) = [0, 1, 2, 3, 4]
   \<and> (3 :: nat) < length (calculate_price_perfomance_according_on_weights example_short_weighted)
   \<and> fst (calculate_price_perfomance_according_on_weights example_short_weighted ! 3)
        \<notin> set (df_index (weights_daily example_short_weighted))
   \<and> snd (calculate_price_perfomance_according_on_weights example_short_weighted ! 3) = NaN"
proof -
  have agg: "(calculate_price_perfomance_according_on_weights, rt) \<in> set aggregators"
    by (simp add: aggregators_def)
  have dist: "distinct (df_index (rt example_short_weighted))"
      "distinct (df_index (weights_daily example_short_weighted))"
    by code_simp+
  have cols: "index_union (map fst (df_cols (rt example_short_weighted)))
      (map fst (df_cols (weights_daily example_short_weighted))) \<noteq> []"
    by code_simp
  have union: "index_union (df_index (rt example_short_weighted))
      (df_index (weights_daily example_short_weighted)) = [0, 1, 2, 3, 4]"
    by code_simp
  note a = aggregation_alignment[OF agg dist cols]
  have idx: "map fst (calculate_price_perfomance_according_on_weights example_short_weighted) = [0, 1, 2, 3, 4]"
    using a union by simp
  then have len: "(3 :: nat) < length (calculate_price_perfomance_according_on_weights example_short_weighted)"
    by (metis length_map length_Cons list.size(3) numeral_3_eq_3 lessI Suc_less_eq less_Suc_eq)
  have "fst (calculate_price_perfomance_according_on_weights example_short_weighted ! 3) = 3"
    using idx len by (metis nth_map nth_Cons_numeral nth_Cons_0 numeral_3_eq_3 nth_Cons_Suc)
  moreover have "(3 :: int) \<notin> set (df_index (weights_daily example_short_weighted))"
    by code_simp
  ultimately have out: "fst (calculate_price_perfomance_according_on_weights example_short_weighted ! 3)
      \<notin> set (df_index (weights_daily example_short_weighted))"
    by simp
  have "snd (calculate_price_perfomance_according_on_weights example_short_weighted ! 3) = NaN"
    using a len out by blast
  then show ?thesis
    using agg dist cols idx len out by simp
qed

end
